theory Spec2Isabelle
  imports Main "HOL-Library.AList"
begin

section \<open>Permissions (src/Permissions/permissions.ts)\<close>

text \<open>
  The enum \<^verbatim>\<open>Permission\<close> is a datatype, a \<^verbatim>\<open>Set<Permission>\<close> a HOL set. The class
  \<^verbatim>\<open>User\<close> has the fields \<^verbatim>\<open>id\<close>, \<^verbatim>\<open>name\<close> and the optional \<^verbatim>\<open>groupId\<close>; the first two
  carry the suffix \<open>_User\<close> here, since \<open>id\<close> is the identity function of HOL and \<open>name\<close>
  is also a field of \<^verbatim>\<open>Node\<close>.
\<close>

datatype Permission = READ | WRITE | EXECUTE

type_synonym PermissionSet = "Permission set"

record User =
  id_User :: string
  name_User :: string
  groupId :: "string option"

record Permissions =
  owningUserId :: string
  owningGroupId :: string
  ownerPerms :: PermissionSet
  groupPerms :: PermissionSet
  everyonePerms :: PermissionSet

text \<open>
  \<^verbatim>\<open>user?.id === this.owningUserId\<close>: the left side is \<^verbatim>\<open>undefined\<close> when no user is given,
  and \<^verbatim>\<open>undefined\<close> is never strictly equal to a string. The same holds for
  \<^verbatim>\<open>user?.groupId\<close>, which is also \<^verbatim>\<open>undefined\<close> when the user has no group.
\<close>

definition userHasPermission :: "Permissions \<Rightarrow> Permission \<Rightarrow> User option \<Rightarrow> bool" where
  "userHasPermission p permission user =
     (if map_option id_User user = Some (owningUserId p) then permission \<in> ownerPerms p
      else if Option.bind user groupId = Some (owningGroupId p) then permission \<in> groupPerms p
      else permission \<in> everyonePerms p)"

section \<open>The user manager (src/Permissions/userManager.ts)\<close>

text \<open>
  The singleton is a value passed to every operation that reads it. A JavaScript \<^verbatim>\<open>Map\<close>
  keeps insertion order and unique keys: it is an association list, \<^verbatim>\<open>set\<close> is
  \<^const>\<open>AList.update\<close> (replace in place, else append), \<^verbatim>\<open>delete\<close> is \<^const>\<open>AList.delete\<close>,
  \<^verbatim>\<open>get\<close> is \<^const>\<open>map_of\<close>. The identifier that \<^verbatim>\<open>uuidv4()\<close> returns is a parameter of
  \<open>createUser\<close>. Every function of the repository is \<^verbatim>\<open>async\<close>; the model is of callers
  that await each call before the next.
\<close>

datatype error =
    UserNotFound
  | PermissionDenied
  | NodeNotFound
  | DirectoryAlreadyExists
  | FileAlreadyExists
  | DirectoryNotFoundOrNotADirectory
  | FileNotFound
  | CannotWriteNotAFile
  | CannotReadNotAFile
  | FileDoesNotExist string
  | NodeAlreadyExists string
  | TypeError

record UserManager =
  users :: "(string \<times> User) list"
  currentUser :: "User option"

definition new_UserManager :: UserManager where
  "new_UserManager = \<lparr>users = [], currentUser = None\<rparr>"

definition createUser :: "string \<Rightarrow> string \<Rightarrow> string option \<Rightarrow> UserManager \<Rightarrow> User \<times> UserManager" where
  "createUser userId nm gid um =
     (let user = \<lparr>id_User = userId, name_User = nm,
                  groupId = Some (case gid of Some g \<Rightarrow> g | None \<Rightarrow> userId)\<rparr>
      in (user, um\<lparr>users := AList.update userId user (users um)\<rparr>))"


definition findUserById :: "string \<Rightarrow> UserManager \<Rightarrow> User option" where
  "findUserById userId um = map_of (users um) userId"

definition findUserByName :: "string \<Rightarrow> UserManager \<Rightarrow> User option" where
  "findUserByName nm um = List.find (\<lambda>user. name_User user = nm) (map snd (users um))"

definition getCurrentUser :: "UserManager \<Rightarrow> User option" where
  "getCurrentUser um = currentUser um"

definition setCurrentUserById :: "string \<Rightarrow> UserManager \<Rightarrow> UserManager" where
  "setCurrentUserById userId um = um\<lparr>currentUser := findUserById userId um\<rparr>"

definition setCurrentUserByName :: "string \<Rightarrow> UserManager \<Rightarrow> (error + unit) \<times> UserManager" where
  "setCurrentUserByName nm um =
     (case findUserByName nm um of
        None \<Rightarrow> (Inl UserNotFound, um)
      | Some user \<Rightarrow> (Inr (), um\<lparr>currentUser := Some user\<rparr>))"

section \<open>Nodes and the file system (the FileSystem module)\<close>

text \<open>
  Nodes are objects that the tree shares by reference (\<^verbatim>\<open>cwd\<close>, \<^verbatim>\<open>parent\<close>, the values of
  \<^verbatim>\<open>children\<close>), so they live in a store: the heap is the list of all nodes ever
  constructed, a reference is an index into it, and \<^verbatim>\<open>new Node\<close> appends. A reference
  typed \<^verbatim>\<open>Node | null\<close> is an \<open>addr option\<close>. The field \<^verbatim>\<open>cwd\<close> is typed \<^verbatim>\<open>Node\<close>, but
  \<open>getNodeByName\<close> can hand it \<^verbatim>\<open>null\<close> at run time (the \<^verbatim>\<open>!\<close> of TypeScript checks
  nothing), so it is an \<open>addr option\<close> as well; reading a property of \<^verbatim>\<open>null\<close> throws
  \<open>TypeError\<close>. An index outside the heap cannot arise in the source; the model treats
  it as \<^verbatim>\<open>null\<close>.
\<close>

datatype NodeType = File | Directory

type_synonym addr = nat

record Node =
  name :: string
  nodeType :: NodeType
  content :: string
  parent :: "addr option"
  children :: "(string \<times> addr) list"
  permissions :: Permissions

record FileSystem =
  heap :: "Node list"
  root :: addr
  cwd :: "addr option"

definition deref :: "Node list \<Rightarrow> addr \<Rightarrow> Node option" where
  "deref h a = (if a < length h then Some (h ! a) else None)"

definition modify :: "Node list \<Rightarrow> addr \<Rightarrow> (Node \<Rightarrow> Node) \<Rightarrow> Node list" where
  "modify h a f = h[a := f (h ! a)]"

definition cwdNode :: "FileSystem \<Rightarrow> Node option" where
  "cwdNode fs = Option.bind (cwd fs) (deref (heap fs))"

definition childNode :: "FileSystem \<Rightarrow> string \<Rightarrow> Node option" where
  "childNode fs nm =
     Option.bind (cwdNode fs) (\<lambda>cn. Option.bind (map_of (children cn) nm) (deref (heap fs)))"

definition getDefaultPermissions :: "UserManager \<Rightarrow> Permissions" where
  "getDefaultPermissions um =
     (let user = getCurrentUser um
      in \<lparr>owningUserId = (case map_option id_User user of Some i \<Rightarrow> i | None \<Rightarrow> ''''),
          owningGroupId = (case Option.bind user groupId of Some g \<Rightarrow> g | None \<Rightarrow> ''''),
          ownerPerms = {READ, WRITE, EXECUTE}, groupPerms = {READ, WRITE, EXECUTE},
          everyonePerms = {}\<rparr>)"

definition new_Node :: "string \<Rightarrow> NodeType \<Rightarrow> Permissions \<Rightarrow> Node" where
  "new_Node nm t p =
     \<lparr>name = nm, nodeType = t, content = '''', parent = None, children = [], permissions = p\<rparr>"

definition isFile :: "Node \<Rightarrow> bool" where
  "isFile n = (nodeType n = File)"

definition isDirectory :: "Node \<Rightarrow> bool" where
  "isDirectory n = (nodeType n = Directory)"

text \<open>The two assertions return the error they throw, if any.\<close>

definition assertCurrentUserCanRead :: "UserManager \<Rightarrow> Node \<Rightarrow> error option" where
  "assertCurrentUserCanRead um n =
     (if \<not> userHasPermission (permissions n) READ (getCurrentUser um)
      then Some PermissionDenied else None)"

definition assertCurrentUserCanWrite :: "UserManager \<Rightarrow> Node \<Rightarrow> error option" where
  "assertCurrentUserCanWrite um n =
     (if \<not> userHasPermission (permissions n) WRITE (getCurrentUser um)
      then Some PermissionDenied else None)"

definition new_FileSystem :: FileSystem where
  "new_FileSystem =
     \<lparr>heap = [new_Node '''' Directory
                \<lparr>owningUserId = ''1'', owningGroupId = ''1'',
                 ownerPerms = {READ, WRITE, EXECUTE}, groupPerms = {READ, WRITE, EXECUTE},
                 everyonePerms = {READ, WRITE, EXECUTE}\<rparr>],
      root = 0, cwd = Some 0\<rparr>"

text \<open>
  Every operation returns its outcome together with the file system as it stands when the
  call returns or throws, so a mutation made before a throw would show in the second
  component.
\<close>

definition getNodeByName :: "string \<Rightarrow> FileSystem \<Rightarrow> error + addr option" where
  "getNodeByName nm fs =
     (if nm = ''/'' then Inr (Some (root fs))
      else if nm = ''..'' then
        (case cwdNode fs of None \<Rightarrow> Inl TypeError | Some cn \<Rightarrow> Inr (parent cn))
      else
        (case cwdNode fs of
           None \<Rightarrow> Inl TypeError
         | Some cn \<Rightarrow>
             (case map_of (children cn) nm of
                Some a \<Rightarrow> Inr (Some a)
              | None \<Rightarrow> Inl NodeNotFound)))"

definition changeDirectory :: "string \<Rightarrow> FileSystem \<Rightarrow> (error + unit) \<times> FileSystem" where
  "changeDirectory dir fs =
     (case getNodeByName dir fs of
        Inl e \<Rightarrow> (Inl e, fs)
      | Inr r \<Rightarrow> (Inr (), fs\<lparr>cwd := r\<rparr>))"

definition makeDirectory :: "UserManager \<Rightarrow> string \<Rightarrow> FileSystem \<Rightarrow> (error + unit) \<times> FileSystem" where
  "makeDirectory um nm fs =
     (case cwd fs of
        None \<Rightarrow> (Inl TypeError, fs)
      | Some c \<Rightarrow>
          (case deref (heap fs) c of
             None \<Rightarrow> (Inl TypeError, fs)
           | Some cn \<Rightarrow>
               (case assertCurrentUserCanWrite um cn of
                  Some e \<Rightarrow> (Inl e, fs)
                | None \<Rightarrow>
                    if map_of (children cn) nm \<noteq> None then (Inl DirectoryAlreadyExists, fs)
                    else
                      let newDir = length (heap fs);
                          h1 = heap fs @ [new_Node nm Directory (getDefaultPermissions um)];
                          h2 = modify h1 newDir (\<lambda>n. n\<lparr>parent := Some c\<rparr>);
                          h3 = modify h2 c (\<lambda>n. n\<lparr>children := AList.update nm newDir (children n)\<rparr>)
                      in (Inr (), fs\<lparr>heap := h3\<rparr>))))"

definition listDirectory :: "UserManager \<Rightarrow> FileSystem \<Rightarrow> (error + string list) \<times> FileSystem" where
  "listDirectory um fs =
     (case cwdNode fs of
        None \<Rightarrow> (Inl TypeError, fs)
      | Some cn \<Rightarrow>
          (case assertCurrentUserCanRead um cn of
             Some e \<Rightarrow> (Inl e, fs)
           | None \<Rightarrow> (Inr (map fst (children cn)), fs)))"

definition removeDirectory :: "UserManager \<Rightarrow> string \<Rightarrow> FileSystem \<Rightarrow> (error + unit) \<times> FileSystem" where
  "removeDirectory um nm fs =
     (case cwd fs of
        None \<Rightarrow> (Inl TypeError, fs)
      | Some c \<Rightarrow>
          (case deref (heap fs) c of
             None \<Rightarrow> (Inl TypeError, fs)
           | Some cn \<Rightarrow>
               (case assertCurrentUserCanWrite um cn of
                  Some e \<Rightarrow> (Inl e, fs)
                | None \<Rightarrow>
                    if (case Option.bind (map_of (children cn) nm) (deref (heap fs)) of
                          None \<Rightarrow> False
                        | Some n \<Rightarrow> isDirectory n)
                    then (Inr (),
                          fs\<lparr>heap := modify (heap fs) c
                                        (\<lambda>n. n\<lparr>children := AList.delete nm (children n)\<rparr>)\<rparr>)
                    else (Inl DirectoryNotFoundOrNotADirectory, fs))))"

definition createFile :: "UserManager \<Rightarrow> string \<Rightarrow> FileSystem \<Rightarrow> (error + unit) \<times> FileSystem" where
  "createFile um nm fs =
     (case cwd fs of
        None \<Rightarrow> (Inl TypeError, fs)
      | Some c \<Rightarrow>
          (case deref (heap fs) c of
             None \<Rightarrow> (Inl TypeError, fs)
           | Some cn \<Rightarrow>
               (case assertCurrentUserCanWrite um cn of
                  Some e \<Rightarrow> (Inl e, fs)
                | None \<Rightarrow>
                    if map_of (children cn) nm \<noteq> None then (Inl FileAlreadyExists, fs)
                    else
                      let newFile = length (heap fs);
                          h1 = heap fs @ [new_Node nm File (getDefaultPermissions um)];
                          h2 = modify h1 newFile (\<lambda>n. n\<lparr>parent := Some c\<rparr>);
                          h3 = modify h2 c (\<lambda>n. n\<lparr>children := AList.update nm newFile (children n)\<rparr>)
                      in (Inr (), fs\<lparr>heap := h3\<rparr>))))"

definition writeFile :: "UserManager \<Rightarrow> string \<Rightarrow> string \<Rightarrow> FileSystem \<Rightarrow> (error + unit) \<times> FileSystem" where
  "writeFile um nm cont fs =
     (case cwdNode fs of
        None \<Rightarrow> (Inl TypeError, fs)
      | Some cn \<Rightarrow>
          (case map_of (children cn) nm of
             None \<Rightarrow> (Inl FileNotFound, fs)
           | Some a \<Rightarrow>
               (case deref (heap fs) a of
                  None \<Rightarrow> (Inl TypeError, fs)
                | Some node \<Rightarrow>
                    (case assertCurrentUserCanWrite um node of
                       Some e \<Rightarrow> (Inl e, fs)
                     | None \<Rightarrow>
                         if \<not> isFile node then (Inl CannotWriteNotAFile, fs)
                         else (Inr (), fs\<lparr>heap := modify (heap fs) a (\<lambda>n. n\<lparr>content := cont\<rparr>)\<rparr>)))))"

definition readFile :: "UserManager \<Rightarrow> string \<Rightarrow> FileSystem \<Rightarrow> (error + string) \<times> FileSystem" where
  "readFile um nm fs =
     (case cwdNode fs of
        None \<Rightarrow> (Inl TypeError, fs)
      | Some cn \<Rightarrow>
          (case map_of (children cn) nm of
             None \<Rightarrow> (Inl FileNotFound, fs)
           | Some a \<Rightarrow>
               (case deref (heap fs) a of
                  None \<Rightarrow> (Inl TypeError, fs)
                | Some node \<Rightarrow>
                    (case assertCurrentUserCanRead um node of
                       Some e \<Rightarrow> (Inl e, fs)
                     | None \<Rightarrow>
                         if \<not> isFile node then (Inl CannotReadNotAFile, fs)
                         else (Inr (content node), fs)))))"

definition moveFile :: "UserManager \<Rightarrow> string \<Rightarrow> string \<Rightarrow> FileSystem \<Rightarrow> (error + unit) \<times> FileSystem" where
  "moveFile um oldName newName fs =
     (case cwd fs of
        None \<Rightarrow> (Inl TypeError, fs)
      | Some c \<Rightarrow>
          (case deref (heap fs) c of
             None \<Rightarrow> (Inl TypeError, fs)
           | Some cn \<Rightarrow>
               (case assertCurrentUserCanWrite um cn of
                  Some e \<Rightarrow> (Inl e, fs)
                | None \<Rightarrow>
                    (case map_of (children cn) oldName of
                       None \<Rightarrow> (Inl (FileDoesNotExist oldName), fs)
                     | Some fileNode \<Rightarrow>
                         (case deref (heap fs) fileNode of
                            None \<Rightarrow> (Inl TypeError, fs)
                          | Some fnode \<Rightarrow>
                              (case assertCurrentUserCanWrite um fnode of
                                 Some e \<Rightarrow> (Inl e, fs)
                               | None \<Rightarrow>
                                   if map_of (children cn) newName \<noteq> None
                                   then (Inl (NodeAlreadyExists newName), fs)
                                   else
                                     let h1 = modify (heap fs) c
                                                (\<lambda>n. n\<lparr>children := AList.delete oldName (children n)\<rparr>);
                                         h2 = modify h1 fileNode (\<lambda>n. n\<lparr>name := newName\<rparr>);
                                         h3 = modify h2 c
                                                (\<lambda>n. n\<lparr>children := AList.update newName fileNode (children n)\<rparr>)
                                     in (Inr (), fs\<lparr>heap := h3\<rparr>)))))))"

text \<open>\<^verbatim>\<open>find\<close> of the source; \<open>find\<close> is a constant of HOL's lists.\<close>

definition find_fs :: "string \<Rightarrow> FileSystem \<Rightarrow> (error + addr list) \<times> FileSystem" where
  "find_fs nm fs =
     (case cwdNode fs of
        None \<Rightarrow> (Inl TypeError, fs)
      | Some cn \<Rightarrow>
          (case map_of (children cn) nm of
             Some a \<Rightarrow> (Inr [a], fs)
           | None \<Rightarrow> (Inr [], fs)))"

section \<open>Well-formed stores\<close>

text \<open>
  What the object graph of the source guarantees by construction and the list of nodes
  does not: every reference held by the file system or by a node (root, current working
  directory, children, parent) is to a node that exists, and the keys of a \<^verbatim>\<open>Map\<close> are
  distinct. The constructor establishes it and every operation keeps it, so the
  \<open>TypeError\<close> of the model arises from a \<^verbatim>\<open>null\<close> current working directory only.
\<close>

definition refs_ok :: "nat \<Rightarrow> Node \<Rightarrow> bool" where
  "refs_ok k n =
     (list_all (\<lambda>a. a < k) (map snd (children n))
      \<and> (case parent n of None \<Rightarrow> True | Some p \<Rightarrow> p < k)
      \<and> distinct (map fst (children n)))"

definition wf_fs :: "FileSystem \<Rightarrow> bool" where
  "wf_fs fs =
     (root fs < length (heap fs)
      \<and> (case cwd fs of None \<Rightarrow> True | Some c \<Rightarrow> c < length (heap fs))
      \<and> list_all (refs_ok (length (heap fs))) (heap fs))"

section \<open>Calls as data\<close>

text \<open>
  The operations of the class as one datatype, so that statements can range over all of
  them. The user manager is global state of the program: \<open>exec\<close> hands it to every
  operation, and \<open>changeDirectory\<close> and \<open>find\<close> do not read it.
\<close>

datatype fs_op =
    ChangeDirectory string
  | MakeDirectory string
  | ListDirectory
  | RemoveDirectory string
  | CreateFile string
  | WriteFile string string
  | ReadFile string
  | MoveFile string string
  | Find string

datatype outcome = Done | Text string | Names "string list" | Nodes "addr list"

definition returning :: "('a \<Rightarrow> outcome) \<Rightarrow> (error + 'a) \<times> FileSystem \<Rightarrow> (error + outcome) \<times> FileSystem" where
  "returning f r = (case fst r of Inl e \<Rightarrow> Inl e | Inr v \<Rightarrow> Inr (f v), snd r)"

fun exec :: "UserManager \<Rightarrow> fs_op \<Rightarrow> FileSystem \<Rightarrow> (error + outcome) \<times> FileSystem" where
  "exec um (ChangeDirectory dir) fs = returning (\<lambda>_. Done) (changeDirectory dir fs)"
| "exec um (MakeDirectory nm) fs = returning (\<lambda>_. Done) (makeDirectory um nm fs)"
| "exec um ListDirectory fs = returning Names (listDirectory um fs)"
| "exec um (RemoveDirectory nm) fs = returning (\<lambda>_. Done) (removeDirectory um nm fs)"
| "exec um (CreateFile nm) fs = returning (\<lambda>_. Done) (createFile um nm fs)"
| "exec um (WriteFile nm cont) fs = returning (\<lambda>_. Done) (writeFile um nm cont fs)"
| "exec um (ReadFile nm) fs = returning Text (readFile um nm fs)"
| "exec um (MoveFile oldName newName) fs = returning (\<lambda>_. Done) (moveFile um oldName newName fs)"
| "exec um (Find nm) fs = returning Nodes (find_fs nm fs)"

fun run :: "UserManager \<Rightarrow> fs_op list \<Rightarrow> FileSystem \<Rightarrow> FileSystem" where
  "run um [] fs = fs"
| "run um (call # calls) fs = run um calls (snd (exec um call fs))"






section \<open>Concrete users and trees\<close>

text \<open>
  Two users as the test suite creates them, the first one current; then the second one
  current. \<open>fs_school\<close> is the tree after the first user has made \<^verbatim>\<open>/school\<close>, entered it,
  made \<^verbatim>\<open>science\<close> with a file inside and the file \<^verbatim>\<open>notes.txt\<close> beside it: the current
  directory is \<^verbatim>\<open>/school\<close>.
\<close>

definition um_users :: UserManager where
  "um_users =
     snd (createUser ''id-2'' ''test2'' (Some ''test2'')
            (snd (createUser ''id-1'' ''test'' (Some ''test'') new_UserManager)))"

definition um_test :: UserManager where
  "um_test = setCurrentUserById ''id-1'' um_users"

definition um_test2 :: UserManager where
  "um_test2 = snd (setCurrentUserByName ''test2'' um_test)"

definition fs_school :: FileSystem where
  "fs_school =
     run um_test
       [MakeDirectory ''school'', ChangeDirectory ''school'', MakeDirectory ''science'',
        ChangeDirectory ''science'', CreateFile ''lab.txt'', ChangeDirectory ''..'',
        CreateFile ''notes.txt'']
       new_FileSystem"


definition perms_test :: Permissions where
  "perms_test =
     \<lparr>owningUserId = ''id-1'', owningGroupId = ''test'',
      ownerPerms = {READ, WRITE, EXECUTE}, groupPerms = {READ, WRITE, EXECUTE},
      everyonePerms = {}\<rparr>"

definition fs_notes :: FileSystem where
  "fs_notes = run um_test [CreateFile ''notes.txt''] new_FileSystem"

section \<open>The creation rule as the specification words it\<close>


section \<open>Evaluating the concrete states\<close>

lemmas um_defs = um_test_def um_test2_def um_users_def createUser_def new_UserManager_def
  setCurrentUserById_def setCurrentUserByName_def findUserById_def findUserByName_def
  getCurrentUser_def Let_def

lemmas fs_defs = new_FileSystem_def returning_def changeDirectory_def
  getNodeByName_def cwdNode_def childNode_def deref_def makeDirectory_def createFile_def
  removeDirectory_def writeFile_def readFile_def moveFile_def find_fs_def listDirectory_def
  assertCurrentUserCanWrite_def assertCurrentUserCanRead_def userHasPermission_def
  new_Node_def modify_def getDefaultPermissions_def isFile_def isDirectory_def

lemma um_test_value:
  "getCurrentUser um_test =
     Some \<lparr>id_User = ''id-1'', name_User = ''test'', groupId = Some ''test''\<rparr>"
  by (simp add: um_defs)

lemma um_test2_value:
  "getCurrentUser um_test2 =
     Some \<lparr>id_User = ''id-2'', name_User = ''test2'', groupId = Some ''test2''\<rparr>"
  by (simp add: um_defs)

lemma new_UserManager_value: "getCurrentUser new_UserManager = None"
  by (simp add: um_defs)

lemma fs_school_value:
  "fs_school =
    \<lparr>heap =
      [\<lparr>name = '''', nodeType = Directory, content = '''', parent = None,
        children = [(''school'', 1)],
        permissions = \<lparr>owningUserId = ''1'', owningGroupId = ''1'',
          ownerPerms = {READ, WRITE, EXECUTE}, groupPerms = {READ, WRITE, EXECUTE},
          everyonePerms = {READ, WRITE, EXECUTE}\<rparr>\<rparr>,
       \<lparr>name = ''school'', nodeType = Directory, content = '''', parent = Some 0,
        children = [(''science'', 2), (''notes.txt'', 4)], permissions = perms_test\<rparr>,
       \<lparr>name = ''science'', nodeType = Directory, content = '''', parent = Some 1,
        children = [(''lab.txt'', 3)], permissions = perms_test\<rparr>,
       \<lparr>name = ''lab.txt'', nodeType = File, content = '''', parent = Some 2,
        children = [], permissions = perms_test\<rparr>,
       \<lparr>name = ''notes.txt'', nodeType = File, content = '''', parent = Some 1,
        children = [], permissions = perms_test\<rparr>],
     root = 0, cwd = Some 1\<rparr>"
  by (simp add: fs_school_def fs_defs um_defs perms_test_def)

lemma fs_notes_value:
  "fs_notes =
     \<lparr>heap =
       [\<lparr>name = '''', nodeType = Directory, content = '''', parent = None,
         children = [(''notes.txt'', 1)],
         permissions = \<lparr>owningUserId = ''1'', owningGroupId = ''1'',
           ownerPerms = {READ, WRITE, EXECUTE}, groupPerms = {READ, WRITE, EXECUTE},
           everyonePerms = {READ, WRITE, EXECUTE}\<rparr>\<rparr>,
        \<lparr>name = ''notes.txt'', nodeType = File, content = '''', parent = Some 0,
         children = [], permissions = perms_test\<rparr>],
      root = 0, cwd = Some 0\<rparr>"
  by (simp add: fs_notes_def fs_defs um_defs perms_test_def)

section \<open>What a successful or failed call leaves behind\<close>

lemma makeDirectory_success:
  assumes "fst (makeDirectory um nm fs) = Inr ()"
  obtains c where "cwd fs = Some c" "c < length (heap fs)"
    "assertCurrentUserCanWrite um (heap fs ! c) = None"
    "map_of (children (heap fs ! c)) nm = None"
    "snd (makeDirectory um nm fs) =
       fs\<lparr>heap := (heap fs @ [(new_Node nm Directory (getDefaultPermissions um))\<lparr>parent := Some c\<rparr>])
              [c := (heap fs ! c)\<lparr>children :=
                      AList.update nm (length (heap fs)) (children (heap fs ! c))\<rparr>]\<rparr>"
  using assms
  by (auto simp: makeDirectory_def deref_def modify_def Let_def nth_append
      split: option.splits if_splits)

lemma createFile_success:
  assumes "fst (createFile um nm fs) = Inr ()"
  obtains c where "cwd fs = Some c" "c < length (heap fs)"
    "assertCurrentUserCanWrite um (heap fs ! c) = None"
    "map_of (children (heap fs ! c)) nm = None"
    "snd (createFile um nm fs) =
       fs\<lparr>heap := (heap fs @ [(new_Node nm File (getDefaultPermissions um))\<lparr>parent := Some c\<rparr>])
              [c := (heap fs ! c)\<lparr>children :=
                      AList.update nm (length (heap fs)) (children (heap fs ! c))\<rparr>]\<rparr>"
  using assms
  by (auto simp: createFile_def deref_def modify_def Let_def nth_append
      split: option.splits if_splits)


lemma moveFile_success:
  assumes "fst (moveFile um a b fs) = Inr ()"
  obtains c n where "cwd fs = Some c" "c < length (heap fs)" "n < length (heap fs)"
    "map_of (children (heap fs ! c)) a = Some n"
    "map_of (children (heap fs ! c)) b = None"
    "snd (moveFile um a b fs) =
       fs\<lparr>heap :=
         modify (modify (modify (heap fs) c (\<lambda>m. m\<lparr>children := AList.delete a (children m)\<rparr>))
                   n (\<lambda>m. m\<lparr>name := b\<rparr>))
           c (\<lambda>m. m\<lparr>children := AList.update b n (children m)\<rparr>)\<rparr>"
  using assms
  by (auto simp: moveFile_def deref_def Let_def split: option.splits if_splits)

lemma changeDirectory_failure:
  "fst (changeDirectory dir fs) = Inl e \<Longrightarrow> snd (changeDirectory dir fs) = fs"
  by (simp add: changeDirectory_def split: sum.splits)

lemma makeDirectory_failure:
  "fst (makeDirectory um nm fs) = Inl e \<Longrightarrow> snd (makeDirectory um nm fs) = fs"
  by (auto simp: makeDirectory_def Let_def split: option.splits if_splits)

lemma createFile_failure:
  "fst (createFile um nm fs) = Inl e \<Longrightarrow> snd (createFile um nm fs) = fs"
  by (auto simp: createFile_def Let_def split: option.splits if_splits)

lemma removeDirectory_failure:
  "fst (removeDirectory um nm fs) = Inl e \<Longrightarrow> snd (removeDirectory um nm fs) = fs"
  by (auto simp: removeDirectory_def split: option.splits if_splits)

lemma writeFile_failure:
  "fst (writeFile um nm cont fs) = Inl e \<Longrightarrow> snd (writeFile um nm cont fs) = fs"
  by (auto simp: writeFile_def split: option.splits if_splits)

lemma moveFile_failure:
  "fst (moveFile um a b fs) = Inl e \<Longrightarrow> snd (moveFile um a b fs) = fs"
  by (auto simp: moveFile_def Let_def split: option.splits if_splits)

lemma readFile_state: "snd (readFile um nm fs) = fs"
  by (simp add: readFile_def split: option.splits)

lemma listDirectory_state: "snd (listDirectory um fs) = fs"
  by (simp add: listDirectory_def split: option.splits)

lemma find_fs_state: "snd (find_fs nm fs) = fs"
  by (simp add: find_fs_def split: option.splits)

lemma fst_returning_Inl: "fst (returning f r) = Inl e \<longleftrightarrow> fst r = Inl e"
  by (simp add: returning_def split: sum.splits)

lemma snd_returning: "snd (returning f r) = snd r"
  by (simp add: returning_def)

lemma getNodeByName_errors:
  "getNodeByName nm fs = Inl e \<Longrightarrow> e = TypeError \<or> e = NodeNotFound"
  by (auto simp: getNodeByName_def split: if_splits option.splits)

lemma default_write_implies_read:
  "userHasPermission (getDefaultPermissions um) WRITE user \<Longrightarrow>
   userHasPermission (getDefaultPermissions um) READ user"
  by (simp add: userHasPermission_def getDefaultPermissions_def Let_def split: if_splits)

lemma create_existing:
  assumes "cwdNode fs = Some cn" "map_of (children cn) nm = Some a"
  shows "createFile um nm fs =
           (if userHasPermission (permissions cn) WRITE (getCurrentUser um)
            then Inl FileAlreadyExists else Inl PermissionDenied, fs)"
    and "makeDirectory um nm fs =
           (if userHasPermission (permissions cn) WRITE (getCurrentUser um)
            then Inl DirectoryAlreadyExists else Inl PermissionDenied, fs)"
  using assms
  by (auto simp: createFile_def makeDirectory_def cwdNode_def assertCurrentUserCanWrite_def
      split: Option.bind_splits)

section \<open>Every operation keeps the store well formed\<close>

lemma wf_new: "wf_fs new_FileSystem"
  by (simp add: wf_fs_def new_FileSystem_def refs_ok_def new_Node_def)

lemma refs_ok_mono: "refs_ok k n \<Longrightarrow> k \<le> k' \<Longrightarrow> refs_ok k' n"
  by (auto simp: refs_ok_def list_all_iff split: option.splits)

lemma update_bound:
  "list_all (\<lambda>a. a < m) (map snd al) \<Longrightarrow> v < m \<Longrightarrow>
   list_all (\<lambda>a. a < m) (map snd (AList.update k v al))"
  by (induction al) auto

lemma delete_bound:
  "list_all P (map snd al) \<Longrightarrow> list_all P (map snd (AList.delete k al))"
  by (induction al) auto

lemma refs_ok_update:
  "refs_ok m n \<Longrightarrow> a < m \<Longrightarrow> refs_ok m (n\<lparr>children := AList.update k a (children n)\<rparr>)"
  by (simp add: refs_ok_def update_bound distinct_update)

lemma refs_ok_delete:
  "refs_ok m n \<Longrightarrow> refs_ok m (n\<lparr>children := AList.delete k (children n)\<rparr>)"
  by (simp add: refs_ok_def delete_bound distinct_delete)

lemma list_all_update:
  "list_all P xs \<Longrightarrow> P x \<Longrightarrow> list_all P (xs[i := x])"
  by (induction xs arbitrary: i) (simp_all split: nat.splits)

lemma wf_modify:
  assumes "wf_fs fs" "a < length (heap fs) \<Longrightarrow> refs_ok (length (heap fs)) (f (heap fs ! a))"
  shows "wf_fs (fs\<lparr>heap := modify (heap fs) a f\<rparr>)"
proof (cases "a < length (heap fs)")
  case True
  with assms show ?thesis
    by (simp add: wf_fs_def modify_def list_all_update split: option.splits)
next
  case False
  with assms show ?thesis
    by (simp add: wf_fs_def modify_def list_update_beyond split: option.splits)
qed

lemma wf_nth: "wf_fs fs \<Longrightarrow> a < length (heap fs) \<Longrightarrow> refs_ok (length (heap fs)) (heap fs ! a)"
  by (simp add: wf_fs_def list_all_length)

lemma wf_alloc:
  assumes "wf_fs fs" "refs_ok (Suc (length (heap fs))) n"
  shows "wf_fs (fs\<lparr>heap := heap fs @ [n]\<rparr>)"
proof -
  have "refs_ok (Suc (length (heap fs))) m" if "m \<in> set (heap fs)" for m
    using assms(1) that refs_ok_mono [of "length (heap fs)" m "Suc (length (heap fs))"]
    by (simp add: wf_fs_def list_all_iff)
  then have "list_all (refs_ok (Suc (length (heap fs)))) (heap fs)"
    by (simp add: list_all_iff)
  with assms show ?thesis
    by (simp add: wf_fs_def split: option.splits)
qed

lemma wf_cwd:
  "wf_fs fs \<Longrightarrow>
   wf_fs (fs\<lparr>cwd := r\<rparr>) \<longleftrightarrow> (case r of None \<Rightarrow> True | Some c \<Rightarrow> c < length (heap fs))"
  by (simp add: wf_fs_def split: option.splits)

lemma getNodeByName_wf:
  assumes "wf_fs fs" "getNodeByName nm fs = Inr (Some a)"
  shows "a < length (heap fs)"
proof -
  have r: "root fs < length (heap fs)" using assms(1) by (simp add: wf_fs_def)
  have k: "refs_ok (length (heap fs)) cn" if "cwdNode fs = Some cn" for cn
    using that assms(1)
    by (auto simp: cwdNode_def deref_def wf_nth split: Option.bind_splits if_splits)
  have m: "a < length (heap fs)" if "cwdNode fs = Some cn" "map_of (children cn) nm = Some a" for cn
    using k [OF that(1)] map_of_SomeD [OF that(2)]
    by (force simp: refs_ok_def list_all_iff)
  from assms(2) r k m show ?thesis
    by (auto simp: getNodeByName_def refs_ok_def split: if_splits option.splits)
qed

lemma wf_changeDirectory: "wf_fs fs \<Longrightarrow> wf_fs (snd (changeDirectory dir fs))"
  by (cases "getNodeByName dir fs")
     (auto simp: changeDirectory_def wf_cwd getNodeByName_wf split: option.splits)

lemma wf_create:
  assumes "wf_fs fs" "c < length (heap fs)"
  shows "wf_fs (fs\<lparr>heap := (heap fs @ [(new_Node nm t p)\<lparr>parent := Some c\<rparr>])
              [c := (heap fs ! c)\<lparr>children :=
                      AList.update nm (length (heap fs)) (children (heap fs ! c))\<rparr>]\<rparr>)"
proof -
  let ?n = "(new_Node nm t p)\<lparr>parent := Some c\<rparr>"
  let ?fs1 = "fs\<lparr>heap := heap fs @ [?n]\<rparr>"
  have "refs_ok (Suc (length (heap fs))) ?n"
    using assms(2) by (simp add: refs_ok_def new_Node_def)
  with assms(1) have w1: "wf_fs ?fs1" by (rule wf_alloc)
  have "refs_ok (length (heap ?fs1)) (heap ?fs1 ! c)"
    using w1 assms(2) by (intro wf_nth) simp_all
  then have "refs_ok (length (heap ?fs1))
      ((heap ?fs1 ! c)\<lparr>children := AList.update nm (length (heap fs)) (children (heap ?fs1 ! c))\<rparr>)"
    by (rule refs_ok_update) simp
  with w1 have "wf_fs (?fs1\<lparr>heap := modify (heap ?fs1) c
      (\<lambda>n. n\<lparr>children := AList.update nm (length (heap fs)) (children n)\<rparr>)\<rparr>)"
    by (intro wf_modify) simp_all
  then show ?thesis
    using assms(2) by (simp add: modify_def nth_append)
qed

lemma removeDirectory_success:
  assumes "fst (removeDirectory um nm fs) = Inr ()"
  obtains c where "cwd fs = Some c" "c < length (heap fs)"
    "snd (removeDirectory um nm fs) =
       fs\<lparr>heap := modify (heap fs) c (\<lambda>n. n\<lparr>children := AList.delete nm (children n)\<rparr>)\<rparr>"
  using assms
  by (auto simp: removeDirectory_def deref_def split: option.splits if_splits)

lemma writeFile_success:
  assumes "fst (writeFile um nm x fs) = Inr ()"
  obtains a where "a < length (heap fs)"
    "snd (writeFile um nm x fs) = fs\<lparr>heap := modify (heap fs) a (\<lambda>n. n\<lparr>content := x\<rparr>)\<rparr>"
  using assms
  by (auto simp: writeFile_def deref_def split: option.splits if_splits)

lemma wf_makeDirectory: "wf_fs fs \<Longrightarrow> wf_fs (snd (makeDirectory um nm fs))"
proof (cases "fst (makeDirectory um nm fs)")
  case (Inl e)
  then show "wf_fs fs \<Longrightarrow> wf_fs (snd (makeDirectory um nm fs))"
    by (simp add: makeDirectory_failure)
next
  case (Inr u)
  then have "fst (makeDirectory um nm fs) = Inr ()" by simp
  then show "wf_fs fs \<Longrightarrow> wf_fs (snd (makeDirectory um nm fs))"
    by (elim makeDirectory_success) (simp add: wf_create)
qed

lemma wf_createFile: "wf_fs fs \<Longrightarrow> wf_fs (snd (createFile um nm fs))"
proof (cases "fst (createFile um nm fs)")
  case (Inl e)
  then show "wf_fs fs \<Longrightarrow> wf_fs (snd (createFile um nm fs))"
    by (simp add: createFile_failure)
next
  case (Inr u)
  then have "fst (createFile um nm fs) = Inr ()" by simp
  then show "wf_fs fs \<Longrightarrow> wf_fs (snd (createFile um nm fs))"
    by (elim createFile_success) (simp add: wf_create)
qed

lemma wf_removeDirectory: "wf_fs fs \<Longrightarrow> wf_fs (snd (removeDirectory um nm fs))"
proof (cases "fst (removeDirectory um nm fs)")
  case (Inl e)
  then show "wf_fs fs \<Longrightarrow> wf_fs (snd (removeDirectory um nm fs))"
    by (simp add: removeDirectory_failure)
next
  case (Inr u)
  then have "fst (removeDirectory um nm fs) = Inr ()" by simp
  then show "wf_fs fs \<Longrightarrow> wf_fs (snd (removeDirectory um nm fs))"
    by (elim removeDirectory_success) (simp add: wf_modify wf_nth refs_ok_delete)
qed

lemma wf_writeFile: "wf_fs fs \<Longrightarrow> wf_fs (snd (writeFile um nm x fs))"
proof (cases "fst (writeFile um nm x fs)")
  case (Inl e)
  then show "wf_fs fs \<Longrightarrow> wf_fs (snd (writeFile um nm x fs))"
    by (simp add: writeFile_failure)
next
  case (Inr u)
  have r: "refs_ok k (n\<lparr>content := x\<rparr>) = refs_ok k n" for k n
    by (simp add: refs_ok_def)
  from Inr have "fst (writeFile um nm x fs) = Inr ()" by simp
  then show "wf_fs fs \<Longrightarrow> wf_fs (snd (writeFile um nm x fs))"
    by (elim writeFile_success) (simp add: wf_modify wf_nth r)
qed

lemma wf_moveFile: "wf_fs fs \<Longrightarrow> wf_fs (snd (moveFile um a b fs))"
proof (cases "fst (moveFile um a b fs)")
  case (Inl e)
  then show "wf_fs fs \<Longrightarrow> wf_fs (snd (moveFile um a b fs))"
    by (simp add: moveFile_failure)
next
  case (Inr u)
  assume w: "wf_fs fs"
  have r: "refs_ok k (n\<lparr>name := b\<rparr>) = refs_ok k n" for k n
    by (simp add: refs_ok_def)
  from Inr have "fst (moveFile um a b fs) = Inr ()" by simp
  then obtain c n where c: "c < length (heap fs)" and n: "n < length (heap fs)"
    and s: "snd (moveFile um a b fs) =
       fs\<lparr>heap :=
         modify (modify (modify (heap fs) c (\<lambda>m. m\<lparr>children := AList.delete a (children m)\<rparr>))
                   n (\<lambda>m. m\<lparr>name := b\<rparr>))
           c (\<lambda>m. m\<lparr>children := AList.update b n (children m)\<rparr>)\<rparr>"
    by (rule moveFile_success)
  let ?fs1 = "fs\<lparr>heap := modify (heap fs) c (\<lambda>m. m\<lparr>children := AList.delete a (children m)\<rparr>)\<rparr>"
  let ?fs2 = "?fs1\<lparr>heap := modify (heap ?fs1) n (\<lambda>m. m\<lparr>name := b\<rparr>)\<rparr>"
  let ?fs3 = "?fs2\<lparr>heap := modify (heap ?fs2) c (\<lambda>m. m\<lparr>children := AList.update b n (children m)\<rparr>)\<rparr>"
  have w1: "wf_fs ?fs1"
    using w by (intro wf_modify [of fs c]) (simp_all add: wf_nth refs_ok_delete)
  have l1: "length (heap ?fs1) = length (heap fs)" by (simp add: modify_def)
  have r1: "refs_ok (length (heap ?fs1)) (heap ?fs1 ! n)"
    using w1 n l1 by (intro wf_nth) simp_all
  have w2: "wf_fs ?fs2"
    using w1 r1 by (intro wf_modify [of ?fs1 n]) (simp_all add: r)
  have l2: "length (heap ?fs2) = length (heap fs)" by (simp add: modify_def)
  have r2: "refs_ok (length (heap ?fs2)) (heap ?fs2 ! c)"
    using w2 c l2 by (intro wf_nth) simp_all
  have "refs_ok (length (heap ?fs2)) ((heap ?fs2 ! c)\<lparr>children := AList.update b n (children (heap ?fs2 ! c))\<rparr>)"
    using r2 n l2 by (intro refs_ok_update) simp_all
  then have w3: "wf_fs ?fs3"
    using w2 by (intro wf_modify [of ?fs2 c]) simp_all
  then show "wf_fs (snd (moveFile um a b fs))"
    by (simp add: s)
qed

lemma wf_exec: "wf_fs fs \<Longrightarrow> wf_fs (snd (exec um call fs))"
  by (cases call)
     (simp_all add: snd_returning wf_changeDirectory wf_makeDirectory wf_createFile
        wf_removeDirectory wf_writeFile wf_moveFile readFile_state listDirectory_state
        find_fs_state)

lemma wf_run: "wf_fs fs \<Longrightarrow> wf_fs (run um calls fs)"
  by (induction calls arbitrary: fs) (simp_all add: wf_exec)

lemma wf_deref: "wf_fs fs \<Longrightarrow> cwd fs = Some c \<Longrightarrow> deref (heap fs) c = Some (heap fs ! c)"
  by (simp add: wf_fs_def deref_def)


lemma child_in_heap:
  assumes "wf_fs fs" "cwd fs = Some c" "map_of (children (heap fs ! c)) nm = Some a"
  shows "a < length (heap fs)"
proof -
  from assms(1,2) have "c < length (heap fs)" by (simp add: wf_fs_def)
  with assms(1) have "refs_ok (length (heap fs)) (heap fs ! c)" by (rule wf_nth)
  with map_of_SomeD [OF assms(3)] show ?thesis
    by (force simp: refs_ok_def list_all_iff)
qed

lemma no_TypeError:
  assumes w: "wf_fs fs" and c: "cwd fs = Some c"
  shows "fst (exec um call fs) \<noteq> Inl TypeError"
proof -
  from w c have l: "c < length (heap fs)" by (simp add: wf_fs_def)
  note k = child_in_heap [OF w c]
  show ?thesis
  proof (cases call)
    case (ChangeDirectory dir)
    then show ?thesis using c l
      by (auto simp: returning_def changeDirectory_def getNodeByName_def cwdNode_def deref_def
          split: sum.splits option.splits if_splits)
  next
    case (MakeDirectory nm)
    then show ?thesis using c l
      by (auto simp: returning_def makeDirectory_def deref_def assertCurrentUserCanWrite_def
          Let_def split: sum.splits option.splits if_splits)
  next
    case ListDirectory
    then show ?thesis using c l
      by (auto simp: returning_def listDirectory_def cwdNode_def deref_def
          assertCurrentUserCanRead_def split: sum.splits option.splits if_splits)
  next
    case (RemoveDirectory nm)
    then show ?thesis using c l
      by (auto simp: returning_def removeDirectory_def deref_def assertCurrentUserCanWrite_def
          split: sum.splits option.splits if_splits)
  next
    case (CreateFile nm)
    then show ?thesis using c l
      by (auto simp: returning_def createFile_def deref_def assertCurrentUserCanWrite_def
          Let_def split: sum.splits option.splits if_splits)
  next
    case (WriteFile nm x)
    then show ?thesis using c l k [of nm]
      by (auto simp: returning_def writeFile_def cwdNode_def deref_def
          assertCurrentUserCanWrite_def split: sum.splits option.splits if_splits)
  next
    case (ReadFile nm)
    then show ?thesis using c l k [of nm]
      by (auto simp: returning_def readFile_def cwdNode_def deref_def
          assertCurrentUserCanRead_def split: sum.splits option.splits if_splits)
  next
    case (MoveFile a b)
    then show ?thesis using c l k [of a]
      by (auto simp: returning_def moveFile_def deref_def assertCurrentUserCanWrite_def
          Let_def split: sum.splits option.splits if_splits)
  next
    case (Find nm)
    then show ?thesis using c l
      by (auto simp: returning_def find_fs_def cwdNode_def deref_def
          split: sum.splits option.splits if_splits)
  qed
qed

section \<open>Every user the manager reports has a group\<close>














text \<open>The concrete trees are reached by calls from the constructor, so they are well formed.\<close>

lemma wf_fs_school: "wf_fs fs_school"
  unfolding fs_school_def by (intro wf_run wf_new)

lemma wf_fs_notes: "wf_fs fs_notes"
  unfolding fs_notes_def by (intro wf_run wf_new)

section \<open>The access decision\<close>

text \<open>
  C1. For every permission record, permission and identity (present or absent),
  \<open>userHasPermission\<close> consults the tiers in the order owner, group, everyone and the
  first match wins: a present identity whose id is the owning user gets the owner set
  (also when its group is the owning group); otherwise a present identity whose group is
  the owning group gets the group set; otherwise, and when no identity is given, the
  everyone set decides.
\<close>

theorem userHasPermission_tiers:
  "userHasPermission p permission user =
     (case user of
        None \<Rightarrow> permission \<in> everyonePerms p
      | Some u \<Rightarrow>
          if id_User u = owningUserId p then permission \<in> ownerPerms p
          else if groupId u = Some (owningGroupId p) then permission \<in> groupPerms p
          else permission \<in> everyonePerms p)"
  by (cases user) (simp_all add: userHasPermission_def)


section \<open>Changing directory\<close>

text \<open>
  C2. On a tree whose current working directory is the root, \<open>changeDirectory ''..''\<close> is
  specified to fail with NotFound and to leave the current working directory alone. The
  code returns \<^verbatim>\<open>this.cwd.parent!\<close>, which is \<^verbatim>\<open>null\<close> for the root: on the freshly
  constructed file system the call returns normally, the current working directory is
  \<^verbatim>\<open>null\<close> afterwards, and the next \<open>listDirectory\<close> throws a \<open>TypeError\<close>.
\<close>

theorem changeDirectory_parent_of_root:
  "cwd new_FileSystem = Some (root new_FileSystem)
   \<and> changeDirectory ''..'' new_FileSystem = (Inr (), new_FileSystem\<lparr>cwd := None\<rparr>)
   \<and> fst (listDirectory new_UserManager (snd (changeDirectory ''..'' new_FileSystem)))
       = Inl TypeError"
  by (simp add: new_FileSystem_def changeDirectory_def getNodeByName_def cwdNode_def deref_def
      new_Node_def listDirectory_def)

text \<open>
  C3. \<open>changeDirectory\<close> is specified to fail when the name resolves to a file, so that the
  current working directory is a directory at all times. The code assigns whatever
  \<open>getNodeByName\<close> returns: after \<open>createFile ''a''\<close> on the fresh file system,
  \<open>changeDirectory ''a''\<close> returns normally and the current working directory is the file.
\<close>

theorem changeDirectory_enters_file:
  "fst (createFile new_UserManager ''a'' new_FileSystem) = Inr ()
   \<and> fst (changeDirectory ''a'' (snd (createFile new_UserManager ''a'' new_FileSystem))) = Inr ()
   \<and> map_option nodeType
        (cwdNode (snd (changeDirectory ''a'' (snd (createFile new_UserManager ''a'' new_FileSystem)))))
       = Some File"
  by (simp add: fs_defs um_defs)

section \<open>Permissions of a created node\<close>



section \<open>Failure leaves the tree alone\<close>

text \<open>
  C5. Every operation of the file system that fails, with whatever error, leaves the file
  system exactly as it was before the call: the heap of nodes (names, kinds, contents,
  children, parents, permissions), the root and the current working directory.
\<close>

theorem failed_call_leaves_state:
  "fst (exec um call fs) = Inl e \<Longrightarrow> snd (exec um call fs) = fs"
proof (cases call)
  case (ChangeDirectory dir)
  then show "fst (exec um call fs) = Inl e \<Longrightarrow> snd (exec um call fs) = fs"
    by (simp add: fst_returning_Inl snd_returning changeDirectory_failure)
next
  case (MakeDirectory nm)
  then show "fst (exec um call fs) = Inl e \<Longrightarrow> snd (exec um call fs) = fs"
    by (simp add: fst_returning_Inl snd_returning makeDirectory_failure)
next
  case ListDirectory
  then show "fst (exec um call fs) = Inl e \<Longrightarrow> snd (exec um call fs) = fs"
    by (simp add: snd_returning listDirectory_state)
next
  case (RemoveDirectory nm)
  then show "fst (exec um call fs) = Inl e \<Longrightarrow> snd (exec um call fs) = fs"
    by (simp add: fst_returning_Inl snd_returning removeDirectory_failure)
next
  case (CreateFile nm)
  then show "fst (exec um call fs) = Inl e \<Longrightarrow> snd (exec um call fs) = fs"
    by (simp add: fst_returning_Inl snd_returning createFile_failure)
next
  case (WriteFile nm cont)
  then show "fst (exec um call fs) = Inl e \<Longrightarrow> snd (exec um call fs) = fs"
    by (simp add: fst_returning_Inl snd_returning writeFile_failure)
next
  case (ReadFile nm)
  then show "fst (exec um call fs) = Inl e \<Longrightarrow> snd (exec um call fs) = fs"
    by (simp add: snd_returning readFile_state)
next
  case (MoveFile a b)
  then show "fst (exec um call fs) = Inl e \<Longrightarrow> snd (exec um call fs) = fs"
    by (simp add: fst_returning_Inl snd_returning moveFile_failure)
next
  case (Find nm)
  then show "fst (exec um call fs) = Inl e \<Longrightarrow> snd (exec um call fs) = fs"
    by (simp add: snd_returning find_fs_state)
qed

theorem failed_call_leaves_state_witness:
  "fst (exec um_test2 (MoveFile ''notes.txt'' ''notes2.txt'') fs_school) = Inl PermissionDenied
   \<and> snd (exec um_test2 (MoveFile ''notes.txt'' ''notes2.txt'') fs_school) = fs_school
   \<and> fst (exec um_test (MoveFile ''notes.txt'' ''science'') fs_school)
       = Inl (NodeAlreadyExists ''science'')
   \<and> snd (exec um_test (MoveFile ''notes.txt'' ''science'') fs_school) = fs_school
   \<and> fst (exec um_test (WriteFile ''science'' ''X'') fs_school) = Inl CannotWriteNotAFile
   \<and> snd (exec um_test (WriteFile ''science'' ''X'') fs_school) = fs_school"
proof -
  have a: "fst (exec um_test2 (MoveFile ''notes.txt'' ''notes2.txt'') fs_school)
      = Inl PermissionDenied"
    by (simp add: fs_school_value returning_def moveFile_def deref_def
        assertCurrentUserCanWrite_def userHasPermission_def um_test2_value perms_test_def)
  have b: "fst (exec um_test (MoveFile ''notes.txt'' ''science'') fs_school)
      = Inl (NodeAlreadyExists ''science'')"
    by (simp add: fs_school_value returning_def moveFile_def deref_def
        assertCurrentUserCanWrite_def userHasPermission_def um_test_value perms_test_def)
  have c: "fst (exec um_test (WriteFile ''science'' ''X'') fs_school) = Inl CannotWriteNotAFile"
    by (simp add: fs_school_value returning_def writeFile_def cwdNode_def deref_def isFile_def
        assertCurrentUserCanWrite_def userHasPermission_def um_test_value perms_test_def)
  from a b c failed_call_leaves_state [OF a] failed_call_leaves_state [OF b]
    failed_call_leaves_state [OF c]
  show ?thesis by simp
qed

section \<open>Writing and reading a file\<close>

text \<open>
  C6. For every tree, identity, name and content: when \<open>createFile nm\<close> and then
  \<open>writeFile nm x\<close> succeed, the following \<open>readFile nm\<close> returns exactly \<open>x\<close>. (The read
  cannot fail there: an identity that may write the new file may read it.)
\<close>

theorem create_write_read_roundtrip:
  assumes c: "fst (createFile um nm fs) = Inr ()"
    and w: "fst (writeFile um nm x (snd (createFile um nm fs))) = Inr ()"
  shows "fst (readFile um nm (snd (writeFile um nm x (snd (createFile um nm fs))))) = Inr x"
proof -
  from c obtain c' where c': "cwd fs = Some c'" "c' < length (heap fs)"
    and s: "snd (createFile um nm fs) =
       fs\<lparr>heap := (heap fs @ [(new_Node nm File (getDefaultPermissions um))\<lparr>parent := Some c'\<rparr>])
              [c' := (heap fs ! c')\<lparr>children :=
                       AList.update nm (length (heap fs)) (children (heap fs ! c'))\<rparr>]\<rparr>"
    by (rule createFile_success)
  from w have p: "userHasPermission (getDefaultPermissions um) WRITE (getCurrentUser um)"
    unfolding s using c'
    by (simp add: writeFile_def cwdNode_def deref_def update_conv' nth_append new_Node_def
        assertCurrentUserCanWrite_def split: if_splits)
  have r: "userHasPermission (getDefaultPermissions um) READ (getCurrentUser um)"
    using p by (rule default_write_implies_read)
  show ?thesis
    unfolding s using c' p r
    by (simp add: writeFile_def readFile_def cwdNode_def deref_def update_conv' nth_append
        new_Node_def assertCurrentUserCanWrite_def assertCurrentUserCanRead_def isFile_def
        modify_def)
qed

theorem create_write_read_roundtrip_witness:
  "fst (createFile um_test ''notes.txt'' new_FileSystem) = Inr ()
   \<and> fst (writeFile um_test ''notes.txt'' ''Hello, world!''
            (snd (createFile um_test ''notes.txt'' new_FileSystem))) = Inr ()
   \<and> fst (readFile um_test ''notes.txt''
            (snd (writeFile um_test ''notes.txt'' ''Hello, world!''
                    (snd (createFile um_test ''notes.txt'' new_FileSystem)))))
       = Inr ''Hello, world!''"
proof -
  have s: "snd (createFile um_test ''notes.txt'' new_FileSystem) = fs_notes"
    by (simp add: fs_notes_def returning_def)
  have c: "fst (createFile um_test ''notes.txt'' new_FileSystem) = Inr ()"
    by (simp add: new_FileSystem_def createFile_def deref_def assertCurrentUserCanWrite_def
        userHasPermission_def um_test_value new_Node_def Let_def)
  have w: "fst (writeFile um_test ''notes.txt'' ''Hello, world!''
            (snd (createFile um_test ''notes.txt'' new_FileSystem))) = Inr ()"
    unfolding s
    by (simp add: fs_notes_value writeFile_def cwdNode_def deref_def isFile_def
        assertCurrentUserCanWrite_def userHasPermission_def um_test_value perms_test_def)
  from c w create_write_read_roundtrip [OF c w] show ?thesis by simp
qed


section \<open>Removing a directory\<close>

text \<open>
  C7, as the code has it. \<open>removeDirectory\<close> first requires Write on the current working
  directory and fails with PermissionDenied without it. With it, the call succeeds on
  every existing child that is a directory, whatever that directory contains (nothing
  looks at the child's own children), the name is gone from the current working
  directory, and every later listing of it is the old listing without the name. The call
  fails with an error, and changes nothing, unless the named child exists and is a
  directory.
\<close>

theorem removeDirectory_outcome:
  "(cwdNode fs = Some cn \<and> userHasPermission (permissions cn) WRITE (getCurrentUser um)
      \<and> childNode fs nm = Some d \<and> isDirectory d \<longrightarrow>
        fst (removeDirectory um nm fs) = Inr ()
        \<and> childNode (snd (removeDirectory um nm fs)) nm = None
        \<and> (\<forall>um' names. fst (listDirectory um' (snd (removeDirectory um nm fs))) = Inr names
              \<longrightarrow> names = removeAll nm (map fst (children cn))))
   \<and> (cwdNode fs = Some cn \<and> \<not> userHasPermission (permissions cn) WRITE (getCurrentUser um) \<longrightarrow>
        removeDirectory um nm fs = (Inl PermissionDenied, fs))
   \<and> ((\<forall>d. childNode fs nm = Some d \<longrightarrow> \<not> isDirectory d) \<longrightarrow>
        (\<exists>e. removeDirectory um nm fs = (Inl e, fs)))"
proof (intro conjI impI)
  assume a: "cwdNode fs = Some cn \<and> userHasPermission (permissions cn) WRITE (getCurrentUser um)
      \<and> childNode fs nm = Some d \<and> isDirectory d"
  then obtain c where c: "cwd fs = Some c" "c < length (heap fs)" "heap fs ! c = cn"
    by (auto simp: cwdNode_def deref_def split: if_splits Option.bind_splits)
  from a c have ch: "Option.bind (map_of (children cn) nm) (deref (heap fs)) = Some d"
    by (simp add: childNode_def cwdNode_def deref_def)
  have s: "removeDirectory um nm fs =
      (Inr (), fs\<lparr>heap := (heap fs)[c := cn\<lparr>children := AList.delete nm (children cn)\<rparr>]\<rparr>)"
    using a c ch
    by (simp add: removeDirectory_def deref_def assertCurrentUserCanWrite_def modify_def)
  show "fst (removeDirectory um nm fs) = Inr ()"
    by (simp add: s)
  show "childNode (snd (removeDirectory um nm fs)) nm = None"
    using c by (simp add: s childNode_def cwdNode_def deref_def delete_conv')
  show "\<forall>um' names. fst (listDirectory um' (snd (removeDirectory um nm fs))) = Inr names
              \<longrightarrow> names = removeAll nm (map fst (children cn))"
    using c
    by (auto simp: s listDirectory_def cwdNode_def deref_def delete_keys split: option.splits)
next
  assume "cwdNode fs = Some cn \<and> \<not> userHasPermission (permissions cn) WRITE (getCurrentUser um)"
  then show "removeDirectory um nm fs = (Inl PermissionDenied, fs)"
    by (auto simp: removeDirectory_def cwdNode_def assertCurrentUserCanWrite_def
        split: Option.bind_splits)
next
  assume n: "\<forall>d. childNode fs nm = Some d \<longrightarrow> \<not> isDirectory d"
  show "\<exists>e. removeDirectory um nm fs = (Inl e, fs)"
  proof (cases "fst (removeDirectory um nm fs)")
    case (Inl e)
    then show ?thesis
      using removeDirectory_failure [of um nm fs e] by (metis prod.collapse)
  next
    case (Inr u)
    then have "\<exists>d. childNode fs nm = Some d \<and> isDirectory d"
      by (auto simp: removeDirectory_def childNode_def cwdNode_def
          split: option.splits if_splits)
    with n show ?thesis by blast
  qed
qed

text \<open>
  Without the Write requirement the statement fails: \<^verbatim>\<open>science\<close> is an existing, non-empty
  child directory of \<^verbatim>\<open>/school\<close>, and the second user's call is denied.
\<close>

theorem removeDirectory_nonempty_denied:
  "map_option isDirectory (childNode fs_school ''science'') = Some True
   \<and> map_option children (childNode fs_school ''science'') = Some [(''lab.txt'', 3)]
   \<and> removeDirectory um_test2 ''science'' fs_school = (Inl PermissionDenied, fs_school)"
  unfolding fs_school_value
  by (simp add: childNode_def cwdNode_def deref_def isDirectory_def removeDirectory_def
      assertCurrentUserCanWrite_def userHasPermission_def um_test2_value perms_test_def)

theorem removeDirectory_outcome_witness:
  "map_option isDirectory (childNode fs_school ''science'') = Some True
   \<and> map_option children (childNode fs_school ''science'') = Some [(''lab.txt'', 3)]
   \<and> fst (removeDirectory um_test ''science'' fs_school) = Inr ()
   \<and> childNode (snd (removeDirectory um_test ''science'' fs_school)) ''science'' = None
   \<and> fst (listDirectory um_test (snd (removeDirectory um_test ''science'' fs_school)))
       = Inr [''notes.txt'']
   \<and> removeDirectory um_test2 ''science'' fs_school = (Inl PermissionDenied, fs_school)
   \<and> (\<exists>e. removeDirectory um_test ''notes.txt'' fs_school = (Inl e, fs_school))"
proof -
  define cn where "cn = \<lparr>name = ''school'', nodeType = Directory, content = '''', parent = Some 0,
        children = [(''science'', 2), (''notes.txt'', 4)], permissions = perms_test\<rparr>"
  define d where "d = \<lparr>name = ''science'', nodeType = Directory, content = '''', parent = Some 1,
        children = [(''lab.txt'', 3)], permissions = perms_test\<rparr>"
  have h1: "cwdNode fs_school = Some cn"
    by (simp add: fs_school_value cwdNode_def deref_def cn_def)
  have h2: "userHasPermission (permissions cn) WRITE (getCurrentUser um_test)"
    by (simp add: cn_def perms_test_def userHasPermission_def um_test_value)
  have h3: "childNode fs_school ''science'' = Some d"
    by (simp add: fs_school_value childNode_def cwdNode_def deref_def d_def)
  have h4: "isDirectory d"
    by (simp add: d_def isDirectory_def)
  have h5: "\<not> userHasPermission (permissions cn) WRITE (getCurrentUser um_test2)"
    by (simp add: cn_def perms_test_def userHasPermission_def um_test2_value)
  have h6: "\<forall>d. childNode fs_school ''notes.txt'' = Some d \<longrightarrow> \<not> isDirectory d"
    by (simp add: fs_school_value childNode_def cwdNode_def deref_def isDirectory_def)
  note a = removeDirectory_outcome [of fs_school cn um_test "''science''" d]
  note b = removeDirectory_outcome [of fs_school cn um_test2 "''science''" d]
  note c = removeDirectory_outcome [of fs_school cn um_test "''notes.txt''" d]
  have r1: "fst (removeDirectory um_test ''science'' fs_school) = Inr ()"
    using a h1 h2 h3 h4 by blast
  have r2: "childNode (snd (removeDirectory um_test ''science'' fs_school)) ''science'' = None"
    using a h1 h2 h3 h4 by blast
  have l: "fst (listDirectory um_test (snd (removeDirectory um_test ''science'' fs_school)))
      = Inr [''notes.txt'']"
    by (simp add: fs_school_value removeDirectory_def listDirectory_def cwdNode_def deref_def
        isDirectory_def assertCurrentUserCanWrite_def assertCurrentUserCanRead_def
        userHasPermission_def um_test_value perms_test_def modify_def AList.delete_eq)
  have r3: "removeDirectory um_test2 ''science'' fs_school = (Inl PermissionDenied, fs_school)"
    using b h1 h5 by blast
  have r4: "\<exists>e. removeDirectory um_test ''notes.txt'' fs_school = (Inl e, fs_school)"
    using c h6 by blast
  show ?thesis
    using r1 r2 l r3 r4 h3 by (simp add: d_def isDirectory_def)
qed

section \<open>Renaming and finding\<close>

text \<open>
  C8. In every state in which \<open>moveFile a b\<close> succeeds, a following \<open>find b\<close> returns exactly
  one node and that node's name is \<open>b\<close>, and \<open>find a\<close> returns the empty sequence. In
  general, with a current working directory at hand, \<open>find nm\<close> returns the one-element
  sequence of the child stored under \<open>nm\<close> when there is one, and the empty sequence
  otherwise.
\<close>

theorem moveFile_then_find:
  "(fst (moveFile um a b fs) = Inr () \<longrightarrow>
      (\<exists>n. fst (find_fs b (snd (moveFile um a b fs))) = Inr [n]
           \<and> map_option name (deref (heap (snd (moveFile um a b fs))) n) = Some b)
      \<and> fst (find_fs a (snd (moveFile um a b fs))) = Inr [])
   \<and> (cwdNode fs = Some cn \<longrightarrow>
        find_fs nm fs = (Inr (case map_of (children cn) nm of Some n \<Rightarrow> [n] | None \<Rightarrow> []), fs))"
proof (intro conjI impI)
  assume "fst (moveFile um a b fs) = Inr ()"
  then obtain c n where c: "cwd fs = Some c" "c < length (heap fs)" and n: "n < length (heap fs)"
    and ma: "map_of (children (heap fs ! c)) a = Some n"
    and mb: "map_of (children (heap fs ! c)) b = None"
    and s: "snd (moveFile um a b fs) =
       fs\<lparr>heap :=
         modify (modify (modify (heap fs) c (\<lambda>m. m\<lparr>children := AList.delete a (children m)\<rparr>))
                   n (\<lambda>m. m\<lparr>name := b\<rparr>))
           c (\<lambda>m. m\<lparr>children := AList.update b n (children m)\<rparr>)\<rparr>"
    by (rule moveFile_success)
  from ma mb have ab: "a \<noteq> b" by auto
  have fb: "fst (find_fs b (snd (moveFile um a b fs))) = Inr [n]"
    unfolding s using c n
    by (simp add: find_fs_def cwdNode_def deref_def modify_def update_conv')
  have nb: "map_option name (deref (heap (snd (moveFile um a b fs))) n) = Some b"
    unfolding s using c n
    by (simp add: deref_def modify_def nth_list_update)
  from fb nb show "\<exists>n. fst (find_fs b (snd (moveFile um a b fs))) = Inr [n]
           \<and> map_option name (deref (heap (snd (moveFile um a b fs))) n) = Some b"
    by blast
  show "fst (find_fs a (snd (moveFile um a b fs))) = Inr []"
    unfolding s using c n ab
    by (simp add: find_fs_def cwdNode_def deref_def modify_def update_conv' delete_conv'
        nth_list_update)
next
  assume "cwdNode fs = Some cn"
  then show "find_fs nm fs =
      (Inr (case map_of (children cn) nm of Some n \<Rightarrow> [n] | None \<Rightarrow> []), fs)"
    by (simp add: find_fs_def split: option.splits)
qed

theorem moveFile_then_find_witness:
  "fst (moveFile um_test ''notes.txt'' ''notes2.txt'' fs_notes) = Inr ()
   \<and> fst (find_fs ''notes2.txt'' (snd (moveFile um_test ''notes.txt'' ''notes2.txt'' fs_notes)))
       = Inr [1]
   \<and> map_option name
        (deref (heap (snd (moveFile um_test ''notes.txt'' ''notes2.txt'' fs_notes))) 1)
       = Some ''notes2.txt''
   \<and> fst (find_fs ''notes.txt'' (snd (moveFile um_test ''notes.txt'' ''notes2.txt'' fs_notes)))
       = Inr []
   \<and> find_fs ''notes.txt'' fs_notes = (Inr [1], fs_notes)
   \<and> find_fs ''absent'' fs_notes = (Inr [], fs_notes)"
proof -
  note v = fs_notes_value
  have m: "fst (moveFile um_test ''notes.txt'' ''notes2.txt'' fs_notes) = Inr ()"
    unfolding v
    by (simp add: moveFile_def deref_def assertCurrentUserCanWrite_def userHasPermission_def
        um_test_value perms_test_def Let_def)
  have h: "cwdNode fs_notes = Some (heap fs_notes ! 0)"
    unfolding v by (simp add: cwdNode_def deref_def)
  have f1: "find_fs ''notes.txt'' fs_notes = (Inr [1], fs_notes)"
    using moveFile_then_find
            [of um_test "''notes.txt''" "''notes2.txt''" fs_notes "heap fs_notes ! 0" "''notes.txt''"] h
    by (simp add: v)
  have f2: "find_fs ''absent'' fs_notes = (Inr [], fs_notes)"
    using moveFile_then_find
            [of um_test "''notes.txt''" "''notes2.txt''" fs_notes "heap fs_notes ! 0" "''absent''"] h
    by (simp add: v)
  from moveFile_then_find
         [of um_test "''notes.txt''" "''notes2.txt''" fs_notes "heap fs_notes ! 0" "''absent''"] m
  have e: "\<exists>n. fst (find_fs ''notes2.txt''
                    (snd (moveFile um_test ''notes.txt'' ''notes2.txt'' fs_notes))) = Inr [n]
           \<and> map_option name
                (deref (heap (snd (moveFile um_test ''notes.txt'' ''notes2.txt'' fs_notes))) n)
               = Some ''notes2.txt''"
    and g: "fst (find_fs ''notes.txt''
                   (snd (moveFile um_test ''notes.txt'' ''notes2.txt'' fs_notes))) = Inr []"
    by blast+
  have k: "fst (find_fs ''notes2.txt''
                  (snd (moveFile um_test ''notes.txt'' ''notes2.txt'' fs_notes))) = Inr [1]"
    unfolding v
    by (simp add: moveFile_def find_fs_def cwdNode_def deref_def assertCurrentUserCanWrite_def
        userHasPermission_def um_test_value perms_test_def Let_def modify_def AList.delete_eq)
  from e k have nm: "map_option name
        (deref (heap (snd (moveFile um_test ''notes.txt'' ''notes2.txt'' fs_notes))) 1)
        = Some ''notes2.txt''"
    by auto
  show ?thesis using m k nm g f1 f2 by simp
qed


section \<open>Creating under a name in use\<close>

text \<open>
  C9, as the code has it. When \<open>createFile nm\<close> has succeeded, a second \<open>createFile nm\<close>
  by the same identity fails with AlreadyExists, and likewise for \<open>makeDirectory\<close>. More
  generally, when \<open>nm\<close> is already among the children of the current working directory,
  whatever the existing child is, both operations fail and change nothing: with
  AlreadyExists when the active identity has Write on the current working directory, and
  with PermissionDenied when it has not, since the permission is checked first.
\<close>

theorem create_existing_name:
  "(fst (createFile um nm fs) = Inr () \<longrightarrow>
      createFile um nm (snd (createFile um nm fs))
        = (Inl FileAlreadyExists, snd (createFile um nm fs)))
   \<and> (fst (makeDirectory um nm fs) = Inr () \<longrightarrow>
      makeDirectory um nm (snd (makeDirectory um nm fs))
        = (Inl DirectoryAlreadyExists, snd (makeDirectory um nm fs)))
   \<and> (cwdNode fs = Some cn \<and> map_of (children cn) nm = Some a \<longrightarrow>
        createFile um nm fs =
           (if userHasPermission (permissions cn) WRITE (getCurrentUser um)
            then Inl FileAlreadyExists else Inl PermissionDenied, fs)
        \<and> makeDirectory um nm fs =
           (if userHasPermission (permissions cn) WRITE (getCurrentUser um)
            then Inl DirectoryAlreadyExists else Inl PermissionDenied, fs))"
proof (intro conjI impI)
  assume "fst (createFile um nm fs) = Inr ()"
  then obtain c where c: "cwd fs = Some c" "c < length (heap fs)"
    and p: "assertCurrentUserCanWrite um (heap fs ! c) = None"
    and s: "snd (createFile um nm fs) =
       fs\<lparr>heap := (heap fs @ [(new_Node nm File (getDefaultPermissions um))\<lparr>parent := Some c\<rparr>])
              [c := (heap fs ! c)\<lparr>children :=
                      AList.update nm (length (heap fs)) (children (heap fs ! c))\<rparr>]\<rparr>"
    by (rule createFile_success)
  show "createFile um nm (snd (createFile um nm fs))
      = (Inl FileAlreadyExists, snd (createFile um nm fs))"
    unfolding s using c p
    by (simp add: createFile_def deref_def update_conv' assertCurrentUserCanWrite_def
        split: if_splits)
next
  assume "fst (makeDirectory um nm fs) = Inr ()"
  then obtain c where c: "cwd fs = Some c" "c < length (heap fs)"
    and p: "assertCurrentUserCanWrite um (heap fs ! c) = None"
    and s: "snd (makeDirectory um nm fs) =
       fs\<lparr>heap := (heap fs @ [(new_Node nm Directory (getDefaultPermissions um))\<lparr>parent := Some c\<rparr>])
              [c := (heap fs ! c)\<lparr>children :=
                      AList.update nm (length (heap fs)) (children (heap fs ! c))\<rparr>]\<rparr>"
    by (rule makeDirectory_success)
  show "makeDirectory um nm (snd (makeDirectory um nm fs))
        = (Inl DirectoryAlreadyExists, snd (makeDirectory um nm fs))"
    unfolding s using c p
    by (simp add: makeDirectory_def deref_def update_conv' assertCurrentUserCanWrite_def
        split: if_splits)
next
  assume a: "cwdNode fs = Some cn \<and> map_of (children cn) nm = Some a"
  then show "createFile um nm fs =
           (if userHasPermission (permissions cn) WRITE (getCurrentUser um)
            then Inl FileAlreadyExists else Inl PermissionDenied, fs)"
    by (simp add: create_existing)
  from a show "makeDirectory um nm fs =
           (if userHasPermission (permissions cn) WRITE (getCurrentUser um)
            then Inl DirectoryAlreadyExists else Inl PermissionDenied, fs)"
    by (simp add: create_existing)
qed

text \<open>
  Without the Write requirement the general statement fails: \<^verbatim>\<open>notes.txt\<close> is among the
  children of \<^verbatim>\<open>/school\<close>, and the second user's calls are denied instead.
\<close>

theorem create_existing_name_denied:
  "map_option isFile (childNode fs_school ''notes.txt'') = Some True
   \<and> createFile um_test2 ''notes.txt'' fs_school = (Inl PermissionDenied, fs_school)
   \<and> makeDirectory um_test2 ''notes.txt'' fs_school = (Inl PermissionDenied, fs_school)"
  unfolding fs_school_value
  by (simp add: childNode_def cwdNode_def deref_def isFile_def createFile_def makeDirectory_def
      assertCurrentUserCanWrite_def userHasPermission_def um_test2_value perms_test_def)

theorem create_existing_name_witness:
  "fst (createFile um_test ''a'' new_FileSystem) = Inr ()
   \<and> fst (createFile um_test ''a'' (snd (createFile um_test ''a'' new_FileSystem)))
       = Inl FileAlreadyExists
   \<and> fst (makeDirectory um_test ''d'' new_FileSystem) = Inr ()
   \<and> fst (makeDirectory um_test ''d'' (snd (makeDirectory um_test ''d'' new_FileSystem)))
       = Inl DirectoryAlreadyExists
   \<and> createFile um_test ''science'' fs_school = (Inl FileAlreadyExists, fs_school)
   \<and> makeDirectory um_test ''notes.txt'' fs_school = (Inl DirectoryAlreadyExists, fs_school)
   \<and> createFile um_test2 ''notes.txt'' fs_school = (Inl PermissionDenied, fs_school)"
proof -
  define cn where "cn = \<lparr>name = ''school'', nodeType = Directory, content = '''', parent = Some 0,
        children = [(''science'', 2), (''notes.txt'', 4)], permissions = perms_test\<rparr>"
  have c1: "fst (createFile um_test ''a'' new_FileSystem) = Inr ()"
    by (simp add: new_FileSystem_def createFile_def deref_def assertCurrentUserCanWrite_def
        userHasPermission_def um_test_value new_Node_def Let_def)
  have m1: "fst (makeDirectory um_test ''d'' new_FileSystem) = Inr ()"
    by (simp add: new_FileSystem_def makeDirectory_def deref_def assertCurrentUserCanWrite_def
        userHasPermission_def um_test_value new_Node_def Let_def)
  have h: "cwdNode fs_school = Some cn"
    by (simp add: fs_school_value cwdNode_def deref_def cn_def)
  have k1: "map_of (children cn) ''science'' = Some 2" by (simp add: cn_def)
  have k2: "map_of (children cn) ''notes.txt'' = Some 4" by (simp add: cn_def)
  have w1: "userHasPermission (permissions cn) WRITE (getCurrentUser um_test)"
    by (simp add: cn_def perms_test_def userHasPermission_def um_test_value)
  have w2: "\<not> userHasPermission (permissions cn) WRITE (getCurrentUser um_test2)"
    by (simp add: cn_def perms_test_def userHasPermission_def um_test2_value)
  have r1: "fst (createFile um_test ''a'' (snd (createFile um_test ''a'' new_FileSystem)))
      = Inl FileAlreadyExists"
    using create_existing_name [of um_test "''a''" new_FileSystem cn 0] c1 by simp
  have r2: "fst (makeDirectory um_test ''d'' (snd (makeDirectory um_test ''d'' new_FileSystem)))
        = Inl DirectoryAlreadyExists"
    using create_existing_name [of um_test "''d''" new_FileSystem cn 0] m1 by simp
  have r3: "createFile um_test ''science'' fs_school = (Inl FileAlreadyExists, fs_school)"
    using create_existing_name [of um_test "''science''" fs_school cn 2] h k1 w1 by simp
  have r4: "makeDirectory um_test ''notes.txt'' fs_school = (Inl DirectoryAlreadyExists, fs_school)"
    using create_existing_name [of um_test "''notes.txt''" fs_school cn 4] h k2 w1 by simp
  have r5: "createFile um_test2 ''notes.txt'' fs_school = (Inl PermissionDenied, fs_school)"
    using create_existing_name [of um_test2 "''notes.txt''" fs_school cn 4] h k2 w2 by simp
  show ?thesis using c1 m1 r1 r2 r3 r4 r5 by simp
qed

section \<open>Changing directory asks for no permission\<close>

text \<open>
  C10. \<open>changeDirectory\<close> checks no permission: its outcome and the resulting current
  working directory are the same under any two user managers (any two active identities,
  or none), it never fails with PermissionDenied, and whenever \<open>getNodeByName\<close> resolves
  the token it succeeds and makes the resolved node the current working directory.
\<close>

theorem changeDirectory_no_permission_check:
  "exec um1 (ChangeDirectory dir) fs = exec um2 (ChangeDirectory dir) fs
   \<and> fst (exec um1 (ChangeDirectory dir) fs) \<noteq> Inl PermissionDenied
   \<and> (\<forall>r. getNodeByName dir fs = Inr r \<longrightarrow>
         exec um1 (ChangeDirectory dir) fs = (Inr Done, fs\<lparr>cwd := r\<rparr>))"
proof (intro conjI allI impI)
  show "exec um1 (ChangeDirectory dir) fs = exec um2 (ChangeDirectory dir) fs"
    by simp
  show "fst (exec um1 (ChangeDirectory dir) fs) \<noteq> Inl PermissionDenied"
    using getNodeByName_errors [of dir fs]
    by (auto simp: returning_def changeDirectory_def split: sum.splits)
next
  fix r assume "getNodeByName dir fs = Inr r"
  then show "exec um1 (ChangeDirectory dir) fs = (Inr Done, fs\<lparr>cwd := r\<rparr>)"
    by (simp add: returning_def changeDirectory_def)
qed

text \<open>
  The second user has neither Read, Write nor Execute on \<^verbatim>\<open>/school/science\<close> and enters it.
\<close>

theorem changeDirectory_no_permission_check_witness:
  "getNodeByName ''science'' fs_school = Inr (Some 2)
   \<and> map_option (\<lambda>n. userHasPermission (permissions n) READ (getCurrentUser um_test2)
                     \<or> userHasPermission (permissions n) WRITE (getCurrentUser um_test2)
                     \<or> userHasPermission (permissions n) EXECUTE (getCurrentUser um_test2))
        (deref (heap fs_school) 2) = Some False
   \<and> exec um_test2 (ChangeDirectory ''science'') fs_school
       = (Inr Done, fs_school\<lparr>cwd := Some 2\<rparr>)
   \<and> exec new_UserManager (ChangeDirectory ''science'') fs_school
       = exec um_test2 (ChangeDirectory ''science'') fs_school"
proof -
  have g: "getNodeByName ''science'' fs_school = Inr (Some 2)"
    by (simp add: fs_school_value getNodeByName_def cwdNode_def deref_def)
  have p: "map_option (\<lambda>n. userHasPermission (permissions n) READ (getCurrentUser um_test2)
                     \<or> userHasPermission (permissions n) WRITE (getCurrentUser um_test2)
                     \<or> userHasPermission (permissions n) EXECUTE (getCurrentUser um_test2))
        (deref (heap fs_school) 2) = Some False"
    by (simp add: fs_school_value deref_def userHasPermission_def um_test2_value perms_test_def)
  from changeDirectory_no_permission_check [of um_test2 "''science''" fs_school new_UserManager] g
  have "exec um_test2 (ChangeDirectory ''science'') fs_school
      = (Inr Done, fs_school\<lparr>cwd := Some 2\<rparr>)"
    and "exec new_UserManager (ChangeDirectory ''science'') fs_school
        = exec um_test2 (ChangeDirectory ''science'') fs_school"
    by simp_all
  with g p show ?thesis by simp
qed

end
